theory Spec2Isabelle
  imports Complex_Main "HOL-Library.AList"
begin

section \<open>Data model\<close>

text \<open>
  The Python exceptions the modelled functions can raise by themselves. A function that can
  raise returns \<open>error + 'a\<close>, with \<open>Inl\<close> for the exception.
\<close>

datatype error =
  IndexError | ValueError | TypeError | UnboundLocalError | AssertionError | OSError

text \<open>
  A bond is the tuple of atom indices that the graph
  library reports for an edge; a distance matrix is a two-dimensional array, a list of rows.
  A dictionary from bonds to displacements is an association list (\<open>AList.update\<close> stores a
  key, \<open>map_of\<close> looks one up); a Python set of bonds is a list without repetitions, whose
  order stands for the unspecified iteration order of the set.
\<close>

type_synonym coord = "real \<times> real \<times> real"
type_synonym bond = "nat \<times> nat"
type_synonym matrix = "real list list"
type_synonym bond_dict = "(bond \<times> real) list"

text \<open>\<open>m[i, j]\<close> on a two-dimensional array: IndexError out of range.\<close>

definition at2 :: "matrix \<Rightarrow> nat \<Rightarrow> nat \<Rightarrow> error + real" where
  "at2 m i j =
     (if i < length m then
        (if j < length (m ! i) then Inr (m ! i ! j) else Inl IndexError)
      else Inl IndexError)"

text \<open>Whether a bond indexes an entry of a matrix, and that entry.\<close>

definition in_bounds :: "matrix \<Rightarrow> bond \<Rightarrow> bool" where
  "in_bounds m b = (fst b < length m \<and> snd b < length (m ! fst b))"

definition entry :: "matrix \<Rightarrow> bond \<Rightarrow> real" where
  "entry m b = m ! fst b ! snd b"

section \<open>Floating-point arithmetic\<close>

text \<open>
  A Python float is an IEEE 754 binary64 number. The model has the finite floats as the
  reals they denote, and every arithmetic operation returns the exact result rounded to the
  nearest float, ties to the even significand: \<open>fl_round x\<close> is the multiple of the spacing
  \<open>2 powr (e - 52)\<close> of the binade \<open>2 powr e \<le> \<bar>x\<bar> < 2 powr (e + 1)\<close> that is nearest to
  \<open>x\<close>. Comparisons of finite floats are exact. Infinities, NaN, overflow and subnormal
  results are outside the model.
\<close>

definition round_half_even :: "real \<Rightarrow> int" where
  "round_half_even y =
     (let n = \<lfloor>y\<rfloor> in
      if y - of_int n < 1 / 2 then n
      else if 1 / 2 < y - of_int n then n + 1
      else if even n then n else n + 1)"

definition fl_round :: "real \<Rightarrow> real" where
  "fl_round x =
     (if x = 0 then 0
      else (let u = 2 powr (of_int \<lfloor>log 2 \<bar>x\<bar>\<rfloor> - 52)
            in u * of_int (round_half_even (x / u))))"

definition fadd :: "real \<Rightarrow> real \<Rightarrow> real" where
  "fadd a b = fl_round (a + b)"

definition fsub :: "real \<Rightarrow> real \<Rightarrow> real" where
  "fsub a b = fl_round (a - b)"

definition fmul :: "real \<Rightarrow> real \<Rightarrow> real" where
  "fmul a b = fl_round (a * b)"

definition fdiv :: "real \<Rightarrow> real \<Rightarrow> real" where
  "fdiv a b = fl_round (a / b)"

definition fsqrt :: "real \<Rightarrow> real" where
  "fsqrt a = fl_round (sqrt a)"

text \<open>
  The floats that the literals \<open>1.05\<close> (the default of \<open>factor\<close>) and \<open>99.9\<close> (the default
  of \<open>max_atom_disp\<close>) denote.
\<close>

definition float_1_05 :: real where
  "float_1_05 = 4728779608739021 / 4503599627370496"

definition float_99_9 :: real where
  "float_99_9 = 3514918771674317 / 35184372088832"

section \<open>confirm\_imag\_modes.py: the checks of the decision engine\<close>

subsection \<open>check\_same\_sign (lines 148-172)\<close>

text \<open>
  The loop of \<open>check_same_sign\<close>, with the variable \<open>first_sign\<close> as an argument. The source
  sets \<open>sign = 1\<close> when \<open>num > 0\<close> and \<open>sign = -1\<close> otherwise; it has no branch that sets
  \<open>sign = 0\<close>, although the test below compares \<open>sign\<close> with 0.
\<close>

fun check_same_sign_loop :: "int \<Rightarrow> real list \<Rightarrow> bool" where
  "check_same_sign_loop first_sign [] = True"
| "check_same_sign_loop first_sign (num # rest) =
     (let sign = (if num > 0 then 1 else - 1) in
      if first_sign = 0 then check_same_sign_loop sign rest
      else if sign \<noteq> 0 \<and> sign \<noteq> first_sign then False
      else check_same_sign_loop first_sign rest)"

definition check_same_sign :: "real list \<Rightarrow> bool" where
  "check_same_sign mode_list = check_same_sign_loop 0 mode_list"

subsection \<open>check\_if\_bond\_lengths\_intermediate (lines 115-145)\<close>

text \<open>
  The test both loops make on one bond:
  \<open>ts_distances[b[0], b[1]] < eq_distances[b[0], b[1]] * factor\<close>. The product is a float
  product: the TS distance is compared with the rounded product.
\<close>

definition bond_too_short :: "matrix \<Rightarrow> matrix \<Rightarrow> real \<Rightarrow> bond \<Rightarrow> error + bool" where
  "bond_too_short ts_distances eq_distances factor active_bond =
     (case at2 ts_distances (fst active_bond) (snd active_bond) of
        Inl e \<Rightarrow> Inl e
      | Inr t \<Rightarrow>
          (case at2 eq_distances (fst active_bond) (snd active_bond) of
             Inl e \<Rightarrow> Inl e
           | Inr d \<Rightarrow> Inr (t < fmul d factor)))"

text \<open>One \<open>for\<close> loop of the check: \<open>return False\<close> at the first bond that is too short.\<close>

fun intermediate_loop :: "matrix \<Rightarrow> matrix \<Rightarrow> real \<Rightarrow> bond list \<Rightarrow> error + bool" where
  "intermediate_loop ts_distances eq_distances factor [] = Inr True"
| "intermediate_loop ts_distances eq_distances factor (active_bond # rest) =
     (case bond_too_short ts_distances eq_distances factor active_bond of
        Inl e \<Rightarrow> Inl e
      | Inr short \<Rightarrow>
          if short then Inr False
          else intermediate_loop ts_distances eq_distances factor rest)"

definition check_if_bond_lengths_intermediate ::
  "matrix \<Rightarrow> matrix \<Rightarrow> matrix \<Rightarrow> bond list \<Rightarrow> bond list \<Rightarrow> real \<Rightarrow> error + bool" where
  "check_if_bond_lengths_intermediate ts_distances reac_distances prod_distances
       active_bonds_forming active_bonds_breaking factor =
     (case intermediate_loop ts_distances prod_distances factor active_bonds_forming of
        Inl e \<Rightarrow> Inl e
      | Inr ok \<Rightarrow>
          if ok then intermediate_loop ts_distances reac_distances factor active_bonds_breaking
          else Inr False)"

subsection \<open>determine\_unactivated\_bonds, the two loops (lines 102-112)\<close>

text \<open>One \<open>for\<close> loop: every bond that is too short is appended to \<open>unactivated_bonds\<close>.\<close>

fun unactivated_loop ::
  "matrix \<Rightarrow> matrix \<Rightarrow> real \<Rightarrow> bond list \<Rightarrow> bond list \<Rightarrow> error + bond list" where
  "unactivated_loop ts_distances eq_distances factor [] unactivated_bonds =
     Inr unactivated_bonds"
| "unactivated_loop ts_distances eq_distances factor (active_bond # rest) unactivated_bonds =
     (case bond_too_short ts_distances eq_distances factor active_bond of
        Inl e \<Rightarrow> Inl e
      | Inr short \<Rightarrow>
          unactivated_loop ts_distances eq_distances factor rest
            (if short then unactivated_bonds @ [active_bond] else unactivated_bonds))"

definition unactivated_bonds ::
  "matrix \<Rightarrow> matrix \<Rightarrow> matrix \<Rightarrow> bond list \<Rightarrow> bond list \<Rightarrow> real \<Rightarrow> error + bond list" where
  "unactivated_bonds ts_distances reac_distances prod_distances
       active_bonds_forming active_bonds_breaking factor =
     (case unactivated_loop ts_distances prod_distances factor active_bonds_forming [] of
        Inl e \<Rightarrow> Inl e
      | Inr found \<Rightarrow>
          unactivated_loop ts_distances reac_distances factor active_bonds_breaking found)"

section \<open>confirm\_imag\_modes.py: reading the first normal mode\<close>

subsection \<open>String operations of Python used by the parser\<close>

text \<open>\<open>needle in line\<close>: the substring test.\<close>

fun contains :: "string \<Rightarrow> string \<Rightarrow> bool" where
  "contains needle [] = (needle = [])"
| "contains needle (c # cs) =
     (take (length needle) (c # cs) = needle \<or> contains needle cs)"

text \<open>
  \<open>line.split('--')\<close>: the pieces between the occurrences of the separator, read from the
  left; the first argument is the piece being read.
\<close>

fun split_dashes :: "string \<Rightarrow> string \<Rightarrow> string list" where
  "split_dashes piece [] = [piece]"
| "split_dashes piece (c # d # cs) =
     (if c = CHR ''-'' \<and> d = CHR ''-'' then piece # split_dashes [] cs
      else split_dashes (piece @ [c]) (d # cs))"
| "split_dashes piece [c] = [piece @ [c]]"

text \<open>
  \<open>field.split()\<close>: the maximal runs of characters that are not whitespace. Of the whitespace
  of Python the model has the ASCII ones: space, tab, line feed, vertical tab, form feed,
  carriage return and the separators 0x1C to 0x1F.
\<close>

definition is_space :: "char \<Rightarrow> bool" where
  "is_space c =
     (c = CHR '' '' \<or> c = CHR 0x09 \<or> c = CHR 0x0A \<or> c = CHR 0x0B \<or> c = CHR 0x0C \<or>
      c = CHR 0x0D \<or> c = CHR 0x1C \<or> c = CHR 0x1D \<or> c = CHR 0x1E \<or> c = CHR 0x1F)"

fun split_ws :: "string \<Rightarrow> string \<Rightarrow> string list" where
  "split_ws tok [] = (if tok = [] then [] else [tok])"
| "split_ws tok (c # cs) =
     (if is_space c then (if tok = [] then split_ws [] cs else tok # split_ws [] cs)
      else split_ws (tok @ [c]) cs)"

text \<open>\<open>lines.index(line)\<close>: the first position of an equal element, ValueError without one.\<close>

fun index_of :: "'a \<Rightarrow> 'a list \<Rightarrow> error + nat" where
  "index_of x [] = Inl ValueError"
| "index_of x (y # ys) =
     (if x = y then Inr 0
      else (case index_of x ys of Inl e \<Rightarrow> Inl e | Inr i \<Rightarrow> Inr (Suc i)))"

subsection \<open>The two library functions the parser calls\<close>

text \<open>
  The parser calls \<open>float\<close> on text and \<open>re.search\<close> with the fixed pattern of line 304. Both
  belong to the Python library and are parameters of the model:
  \<^item> \<open>float_of s\<close> is the value of \<open>float(s)\<close>, \<open>None\<close> when it raises ValueError;
  \<^item> \<open>mode_row s\<close> is the result of \<open>re.search(pattern, s)\<close>: \<open>None\<close> without a match, and
    otherwise the texts of the groups 2, 3 and 4 (the x, y and z columns).
\<close>

record py_lib =
  float_of :: "string \<Rightarrow> real option"
  mode_row :: "string \<Rightarrow> (string \<times> string \<times> string) option"

subsection \<open>truncate\_line\_list\_log\_file (lines 273-288)\<close>

text \<open>
  The flag says whether \<open>ts_found\<close> is set. A loop that ends without \<open>return\<close> gives Python's
  \<open>None\<close>, here \<open>None\<close> of the option type.
\<close>

fun truncate_loop :: "bool \<Rightarrow> string list \<Rightarrow> string list option" where
  "truncate_loop ts_found [] = None"
| "truncate_loop ts_found (line # rest) =
     (let ts_found' = (ts_found \<or> contains ''-- Stationary point found.'' line) in
      if ts_found' \<and> contains ''Harmonic frequencies (cm**-1)'' line then Some (line # rest)
      else truncate_loop ts_found' rest)"

definition truncate_line_list_log_file :: "string list \<Rightarrow> string list option" where
  "truncate_line_list_log_file lines = truncate_loop False lines"

subsection \<open>read\_first\_normal\_mode (lines 291-336)\<close>

text \<open>\<open>float(line.split('--')[1].split()[0])\<close>, with the IndexError of either subscript.\<close>

definition frequency_of :: "py_lib \<Rightarrow> string \<Rightarrow> error + real" where
  "frequency_of lib line =
     (case split_dashes [] line of
        _ # field # _ \<Rightarrow>
          (case split_ws [] field of
             [] \<Rightarrow> Inl IndexError
           | tok # _ \<Rightarrow>
               (case float_of lib tok of None \<Rightarrow> Inl ValueError | Some f \<Rightarrow> Inr f))
      | _ \<Rightarrow> Inl IndexError)"

text \<open>
  The inner loop over the lines below the frequency line: a matching line appends the three
  floats to \<open>normal_mode\<close>, the first line without a match ends the loop.
\<close>

fun read_rows :: "py_lib \<Rightarrow> string list \<Rightarrow> coord list \<Rightarrow> error + coord list" where
  "read_rows lib [] normal_mode = Inr normal_mode"
| "read_rows lib (sub_line # rest) normal_mode =
     (case mode_row lib sub_line of
        None \<Rightarrow> Inr normal_mode
      | Some (gx, gy, gz) \<Rightarrow>
          (case (float_of lib gx, float_of lib gy, float_of lib gz) of
             (Some x, Some y, Some z) \<Rightarrow> read_rows lib rest (normal_mode @ [(x, y, z)])
           | _ \<Rightarrow> Inl ValueError))"

text \<open>
  The outer loop runs to the first line that contains \<open>Frequencies\<close> and ends there
  (\<open>break\<close>). When no line contains it the name \<open>frequency\<close> is never bound, and the
  \<open>return\<close> statement raises UnboundLocalError. With \<open>log_file\<close> set and no frequency block,
  the loop iterates over \<open>None\<close>: TypeError. The function reads no atom count and makes no
  test on the number of rows it has collected.
\<close>

definition read_first_normal_mode ::
  "py_lib \<Rightarrow> string list \<Rightarrow> bool \<Rightarrow> error + (coord list \<times> real)" where
  "read_first_normal_mode lib file_lines log_file =
     (case (if log_file then truncate_line_list_log_file file_lines else Some file_lines) of
        None \<Rightarrow> Inl TypeError
      | Some lines \<Rightarrow>
          (case find (contains ''Frequencies'') lines of
             None \<Rightarrow> Inl UnboundLocalError
           | Some line \<Rightarrow>
               (case frequency_of lib line of
                  Inl e \<Rightarrow> Inl e
                | Inr frequency \<Rightarrow>
                    (case index_of line lines of
                       Inl e \<Rightarrow> Inl e
                     | Inr i \<Rightarrow>
                         (case read_rows lib
                                 (drop (i + (if log_file then 5 else 7)) lines) [] of
                            Inl e \<Rightarrow> Inl e
                          | Inr normal_mode \<Rightarrow> Inr (normal_mode, frequency))))))"

section \<open>confirm\_imag\_modes.py: geometries and the displacement along the mode\<close>

text \<open>
  What the model keeps of a molecule object of the chemistry library: the atomic symbols, the
  coordinates (one row per atom) and the edges of its bond graph.
\<close>

record molecule =
  symbols :: "string list"
  coordinates :: "coord list"
  graph_edges :: "bond list"

definition vadd :: "coord \<Rightarrow> coord \<Rightarrow> coord" where
  "vadd a b =
     (case a of (x, y, z) \<Rightarrow> (case b of (x', y', z') \<Rightarrow> (fadd x x', fadd y y', fadd z z')))"

definition vsub :: "coord \<Rightarrow> coord \<Rightarrow> coord" where
  "vsub a b =
     (case a of (x, y, z) \<Rightarrow> (case b of (x', y', z') \<Rightarrow> (fsub x x', fsub y y', fsub z z')))"

definition smul :: "real \<Rightarrow> coord \<Rightarrow> coord" where
  "smul k a = (case a of (x, y, z) \<Rightarrow> (fmul k x, fmul k y, fmul k z))"

text \<open>
  The Euclidean norm of a row (\<open>np.linalg.norm\<close> along axis 1): the square root of the sum
  of the squares, taken from left to right, every operation rounded.
\<close>

definition norm3 :: "coord \<Rightarrow> real" where
  "norm3 a =
     (case a of (x, y, z) \<Rightarrow> fsqrt (fadd (fadd (fmul x x) (fmul y y)) (fmul z z)))"

text \<open>\<open>np.max\<close>: ValueError on an empty array.\<close>

fun np_max :: "real list \<Rightarrow> error + real" where
  "np_max [] = Inl ValueError"
| "np_max (x # xs) = Inr (fold max xs x)"

text \<open>
  The rows of \<open>normal_mode\<close> that numpy adds to the \<open>n\<close> rows of the coordinates. Arrays of
  the same number of rows are added row by row; a mode of one row is broadcast to every atom;
  a mode of no rows, or of another number of rows, cannot be broadcast: ValueError. For one
  atom and a mode of several rows numpy broadcasts the atom instead, and the displaced array
  has more rows than the species has atoms; the model takes it that the coordinate setter of
  the chemistry library (line 390) rejects such an array, so this case is an error too.
\<close>

definition mode_rows_for :: "nat \<Rightarrow> coord list \<Rightarrow> error + coord list" where
  "mode_rows_for n normal_mode =
     (if length normal_mode = n then Inr normal_mode
      else if length normal_mode = 1 then Inr (replicate n (hd normal_mode))
      else if n = 1 \<and> normal_mode \<noteq> [] then Inl AssertionError
      else Inl ValueError)"

subsection \<open>displaced\_species\_along\_mode (lines 339-392)\<close>

text \<open>
  The loop \<open>for _ in range(20)\<close>: it ends as soon as the largest displacement of an atom is
  below \<open>max_atom_disp\<close>, and otherwise moves the displaced coordinates back by a twentieth of
  the step: \<open>disp_coords -= (disp_factor / 20) * normal_mode\<close>, a float division, a float
  product and a float difference.
\<close>

fun shrink_loop ::
  "nat \<Rightarrow> coord list \<Rightarrow> coord list \<Rightarrow> real \<Rightarrow> real \<Rightarrow> coord list \<Rightarrow> error + coord list" where
  "shrink_loop 0 coords mode disp_factor max_atom_disp disp_coords = Inr disp_coords"
| "shrink_loop (Suc k) coords mode disp_factor max_atom_disp disp_coords =
     (case np_max (map2 (\<lambda>c d. norm3 (vsub c d)) coords disp_coords) of
        Inl e \<Rightarrow> Inl e
      | Inr largest \<Rightarrow>
          if largest < max_atom_disp then Inr disp_coords
          else shrink_loop k coords mode disp_factor max_atom_disp
                 (map2 (\<lambda>d v. vsub d (smul (fdiv disp_factor 20) v)) disp_coords mode))"

text \<open>
  The new species has the atoms of the old one and the displaced coordinates; no graph is
  built for it.
\<close>

definition displaced_species_along_mode ::
  "molecule \<Rightarrow> coord list \<Rightarrow> real \<Rightarrow> real \<Rightarrow> error + molecule" where
  "displaced_species_along_mode species normal_mode disp_factor max_atom_disp =
     (let coords = coordinates species in
      case mode_rows_for (length coords) normal_mode of
        Inl e \<Rightarrow> Inl e
      | Inr mode \<Rightarrow>
          (case shrink_loop 20 coords mode disp_factor max_atom_disp
                  (map2 (\<lambda>c v. vadd c (smul disp_factor v)) coords mode) of
             Inl e \<Rightarrow> Inl e
           | Inr disp_coords \<Rightarrow>
               Inr (species\<lparr>coordinates := disp_coords, graph_edges := []\<rparr>)))"

subsection \<open>Distance matrices and the delta mode (lines 227-242)\<close>

text \<open>
  \<open>scipy.spatial.distance_matrix\<close>: the Euclidean distance of every pair of rows, computed
  like the norm above from the rounded differences of the coordinates.
\<close>

definition distance_matrix :: "coord list \<Rightarrow> coord list \<Rightarrow> matrix" where
  "distance_matrix xs ys = map (\<lambda>a. map (\<lambda>b. norm3 (vsub a b)) ys) xs"

text \<open>
  The difference of two square arrays in numpy: entry by entry for equal shapes, a 1 by 1
  array is broadcast, other shapes raise ValueError.
\<close>

definition matrix_minus :: "matrix \<Rightarrow> matrix \<Rightarrow> error + matrix" where
  "matrix_minus a b =
     (if length a = length b then Inr (map2 (\<lambda>r r'. map2 fsub r r') a b)
      else if length a = 1 then Inr (map (map (\<lambda>y. fsub (a ! 0 ! 0) y)) b)
      else if length b = 1 then Inr (map (map (\<lambda>x. fsub x (b ! 0 ! 0))) a)
      else Inl ValueError)"

text \<open>
  Lines 229 to 242 of \<open>extract_info_ts_file\<close>. The forward species is displaced from
  \<open>ts_mol\<close> with factor 1; the backward species is displaced from \<open>reactant\<close> with factor -1,
  as line 230 has it. Both calls leave \<open>max_atom_disp\<close> at its default 99.9.
\<close>

definition delta_mode_of :: "molecule \<Rightarrow> molecule \<Rightarrow> coord list \<Rightarrow> error + matrix" where
  "delta_mode_of ts_mol reactant normal_mode =
     (case displaced_species_along_mode ts_mol normal_mode 1 float_99_9 of
        Inl e \<Rightarrow> Inl e
      | Inr f_displaced_species \<Rightarrow>
          (case displaced_species_along_mode reactant normal_mode (- 1) float_99_9 of
             Inl e \<Rightarrow> Inl e
           | Inr b_displaced_species \<Rightarrow>
               matrix_minus
                 (distance_matrix (coordinates f_displaced_species)
                    (coordinates f_displaced_species))
                 (distance_matrix (coordinates b_displaced_species)
                    (coordinates b_displaced_species))))"

text \<open>
  The delta mode in the specification's words: both geometries are displaced from the
  candidate TS geometry, at +1 and at -1.
\<close>

definition delta_mode_as_specified :: "molecule \<Rightarrow> coord list \<Rightarrow> error + matrix" where
  "delta_mode_as_specified ts_mol normal_mode = delta_mode_of ts_mol ts_mol normal_mode"

section \<open>confirm\_imag\_modes.py: bond classification and the verdict\<close>

subsection \<open>Python sets of bonds\<close>

definition py_set :: "'a list \<Rightarrow> 'a list" where
  "py_set xs = remdups xs"

definition set_union :: "'a list \<Rightarrow> 'a list \<Rightarrow> 'a list" where
  "set_union a b = remdups (a @ b)"

definition set_difference :: "'a list \<Rightarrow> 'a list \<Rightarrow> 'a list" where
  "set_difference a b = filter (\<lambda>x. x \<notin> set b) a"

subsection \<open>The classification loop (lines 252-267)\<close>

text \<open>
  The loop over \<open>all_bonds\<close>, with the two dictionaries as arguments. A bond of
  \<open>active_bonds\<close> is stored in the first dictionary unless its absolute delta is below
  \<open>2 * cut_off\<close>; any other bond is stored in the second unless its absolute delta is below
  \<open>cut_off\<close>. Doubling a float and taking its absolute value are exact.
\<close>

fun classify_loop ::
  "matrix \<Rightarrow> real \<Rightarrow> bond list \<Rightarrow> bond list \<Rightarrow> bond_dict \<Rightarrow> bond_dict \<Rightarrow>
   error + (bond_dict \<times> bond_dict)" where
  "classify_loop delta_mode cut_off active_bonds [] active_in_mode extra_in_mode =
     Inr (active_in_mode, extra_in_mode)"
| "classify_loop delta_mode cut_off active_bonds (bond # rest) active_in_mode extra_in_mode =
     (case at2 delta_mode (fst bond) (snd bond) of
        Inl e \<Rightarrow> Inl e
      | Inr d \<Rightarrow>
          if bond \<in> set active_bonds then
            (if \<bar>d\<bar> < 2 * cut_off then
               classify_loop delta_mode cut_off active_bonds rest active_in_mode extra_in_mode
             else
               classify_loop delta_mode cut_off active_bonds rest
                 (AList.update bond d active_in_mode) extra_in_mode)
          else
            (if \<bar>d\<bar> < cut_off then
               classify_loop delta_mode cut_off active_bonds rest active_in_mode extra_in_mode
             else
               classify_loop delta_mode cut_off active_bonds rest
                 active_in_mode (AList.update bond d extra_in_mode)))"

text \<open>
  Lines 244 to 267: the bond sets from the two graphs, then the loop. The result is the two
  dictionaries and the sets of forming and breaking bonds.
\<close>

definition bond_classification ::
  "matrix \<Rightarrow> real \<Rightarrow> bond list \<Rightarrow> bond list \<Rightarrow>
   error + (bond_dict \<times> bond_dict \<times> bond list \<times> bond list)" where
  "bond_classification delta_mode cut_off reactant_edges product_edges =
     (let all_bonds = set_union (py_set product_edges) (py_set reactant_edges);
          active_bonds_forming = set_difference (py_set product_edges) (py_set reactant_edges);
          active_bonds_breaking = set_difference (py_set reactant_edges) (py_set product_edges);
          active_bonds = set_union active_bonds_forming active_bonds_breaking
      in case classify_loop delta_mode cut_off active_bonds all_bonds [] [] of
           Inl e \<Rightarrow> Inl e
         | Inr (active_in_mode, extra_in_mode) \<Rightarrow>
             Inr (active_in_mode, extra_in_mode, active_bonds_forming, active_bonds_breaking))"

subsection \<open>extract\_info\_ts\_file (lines 195-270)\<close>

text \<open>The tuple that \<open>extract_info_ts_file\<close> returns.\<close>

record ts_info =
  freq :: real
  active_bonds_involved_in_mode :: bond_dict
  extra_bonds_involved_in_mode :: bond_dict
  active_bonds_forming :: "bond list"
  active_bonds_breaking :: "bond list"
  reac_distances :: matrix
  prod_distances :: matrix
  ts_distances :: matrix

text \<open>
  The files are read by the chemistry library; the model starts from what they hold: the
  reactant, product and TS molecules and the lines of \<open>g98.out\<close>.
\<close>

definition extract_info_ts_file ::
  "py_lib \<Rightarrow> molecule \<Rightarrow> molecule \<Rightarrow> molecule \<Rightarrow> string list \<Rightarrow> real \<Rightarrow> error + ts_info" where
  "extract_info_ts_file lib reactant product ts_mol g98_lines cut_off =
     (case read_first_normal_mode lib g98_lines False of
        Inl e \<Rightarrow> Inl e
      | Inr (normal_mode, frequency) \<Rightarrow>
          (case delta_mode_of ts_mol reactant normal_mode of
             Inl e \<Rightarrow> Inl e
           | Inr delta_mode \<Rightarrow>
               (case bond_classification delta_mode cut_off
                       (graph_edges reactant) (graph_edges product) of
                  Inl e \<Rightarrow> Inl e
                | Inr (active_in_mode, extra_in_mode, forming, breaking) \<Rightarrow>
                    Inr \<lparr>freq = frequency,
                         active_bonds_involved_in_mode = active_in_mode,
                         extra_bonds_involved_in_mode = extra_in_mode,
                         active_bonds_forming = forming,
                         active_bonds_breaking = breaking,
                         reac_distances =
                           distance_matrix (coordinates reactant) (coordinates reactant),
                         prod_distances =
                           distance_matrix (coordinates product) (coordinates product),
                         ts_distances =
                           distance_matrix (coordinates ts_mol) (coordinates ts_mol)\<rparr>)))"

subsection \<open>validate\_ts\_guess (lines 14-71)\<close>

text \<open>
  \<open>[d[bond] for bond in set(d.keys()).intersection(bonds)]\<close>: the values stored for the keys
  that are in \<open>bonds\<close>.
\<close>

definition values_on :: "bond_dict \<Rightarrow> bond list \<Rightarrow> real list" where
  "values_on d bonds = map snd (filter (\<lambda>kv. fst kv \<in> set bonds) d)"

text \<open>
  The test of lines 64 to 66 on the extracted information and the result of the bond-length
  check.
\<close>

definition accepted :: "ts_info \<Rightarrow> bool \<Rightarrow> real \<Rightarrow> bool" where
  "accepted info bond_lengths_intermediate freq_cut_off =
     (length (extra_bonds_involved_in_mode info) = 0 \<and>
      length (active_bonds_involved_in_mode info) \<noteq> 0 \<and>
      check_same_sign
        (values_on (active_bonds_involved_in_mode info) (active_bonds_forming info)) \<and>
      check_same_sign
        (values_on (active_bonds_involved_in_mode info) (active_bonds_breaking info)) \<and>
      bond_lengths_intermediate \<and>
      freq info < - freq_cut_off)"

text \<open>
  \<open>move_final_guess_xyz\<close> copies and renames a file. The file system is a state \<open>'fs\<close> of
  the model and the move is a parameter: \<open>move fs\<close> is the file system after it, or the
  exception of the operating system. The function returns the verdict and the file system.
\<close>

definition validate_ts_guess ::
  "py_lib \<Rightarrow> ('fs \<Rightarrow> error + 'fs) \<Rightarrow> molecule \<Rightarrow> molecule \<Rightarrow> molecule \<Rightarrow> string list \<Rightarrow>
   real \<Rightarrow> real \<Rightarrow> real \<Rightarrow> bool \<Rightarrow> 'fs \<Rightarrow> error + (bool \<times> 'fs)" where
  "validate_ts_guess lib move reactant product ts_mol g98_lines
       factor disp_cut_off freq_cut_off final fs =
     (case extract_info_ts_file lib reactant product ts_mol g98_lines disp_cut_off of
        Inl e \<Rightarrow> Inl e
      | Inr info \<Rightarrow>
          (case check_if_bond_lengths_intermediate (ts_distances info) (reac_distances info)
                  (prod_distances info) (active_bonds_forming info)
                  (active_bonds_breaking info) factor of
             Inl e \<Rightarrow> Inl e
           | Inr bond_lengths_intermediate \<Rightarrow>
               if accepted info bond_lengths_intermediate freq_cut_off then
                 (if final then
                    (case move fs of Inl e \<Rightarrow> Inl e | Inr fs' \<Rightarrow> Inr (True, fs'))
                  else Inr (True, fs))
               else Inr (False, fs)))"

subsection \<open>determine\_unactivated\_bonds (lines 74-112)\<close>

definition determine_unactivated_bonds ::
  "py_lib \<Rightarrow> molecule \<Rightarrow> molecule \<Rightarrow> molecule \<Rightarrow> string list \<Rightarrow> real \<Rightarrow> real \<Rightarrow>
   error + bond list" where
  "determine_unactivated_bonds lib reactant product ts_mol g98_lines factor disp_cut_off =
     (case extract_info_ts_file lib reactant product ts_mol g98_lines disp_cut_off of
        Inl e \<Rightarrow> Inl e
      | Inr info \<Rightarrow>
          unactivated_bonds (ts_distances info) (reac_distances info) (prod_distances info)
            (active_bonds_forming info) (active_bonds_breaking info) factor)"

section \<open>irc\_search.py: the tolerance sweep\<close>

text \<open>
  Graph inference belongs to the chemistry library and is a parameter: the edges it finds
  for the atoms and coordinates of a molecule at a relative tolerance. \<open>make_graph\<close> stores
  them in the molecule.
\<close>

type_synonym graph_inference = "real \<Rightarrow> string list \<Rightarrow> coord list \<Rightarrow> bond list"

definition make_graph :: "graph_inference \<Rightarrow> molecule \<Rightarrow> real \<Rightarrow> molecule" where
  "make_graph infer mol rel_tolerance =
     mol\<lparr>graph_edges := infer rel_tolerance (symbols mol) (coordinates mol)\<rparr>"

text \<open>\<open>update_molecular_graphs\<close> (lines 166-170).\<close>

definition update_molecular_graphs ::
  "graph_inference \<Rightarrow> real \<Rightarrow> molecule \<times> molecule \<times> molecule \<times> molecule \<Rightarrow>
   molecule \<times> molecule \<times> molecule \<times> molecule" where
  "update_molecular_graphs infer rel_tolerance mols =
     (case mols of (forward_mol, reverse_mol, reactant_mol, product_mol) \<Rightarrow>
        (make_graph infer forward_mol rel_tolerance, make_graph infer reverse_mol rel_tolerance,
         make_graph infer reactant_mol rel_tolerance, make_graph infer product_mol rel_tolerance))"

text \<open>
  The test of lines 185 and 187 on the four molecules: one of the two orientations has equal
  edge sets.
\<close>

definition orientation_matches :: "molecule \<times> molecule \<times> molecule \<times> molecule \<Rightarrow> bool" where
  "orientation_matches mols =
     (case mols of (forward_mol, reverse_mol, reactant_mol, product_mol) \<Rightarrow>
        (set (graph_edges forward_mol) = set (graph_edges reactant_mol) \<and>
         set (graph_edges reverse_mol) = set (graph_edges product_mol)) \<or>
        (set (graph_edges forward_mol) = set (graph_edges product_mol) \<and>
         set (graph_edges reverse_mol) = set (graph_edges reactant_mol)))"

text \<open>
  The loop of lines 183 to 192 over the tolerances that are left. The molecules are objects
  that the loop changes, so the result carries them next to the verdict.
\<close>

fun sweep ::
  "graph_inference \<Rightarrow> real list \<Rightarrow> molecule \<times> molecule \<times> molecule \<times> molecule \<Rightarrow>
   bool \<times> (molecule \<times> molecule \<times> molecule \<times> molecule)" where
  "sweep infer [] mols = (False, mols)"
| "sweep infer (rel_tolerance # rest) mols =
     (let mols' = update_molecular_graphs infer rel_tolerance mols in
      if orientation_matches mols' then (True, mols') else sweep infer rest mols')"

definition tolerances :: "real list" where
  "tolerances = [3 / 10, 25 / 100, 20 / 100, 15 / 100, 10 / 100]"

text \<open>
  \<open>compare_molecules_irc\<close> from line 183 on. The re-optimisation of the two end points runs an
  external program; the model starts from the four molecules that lines 178 to 181 load.
\<close>

definition compare_molecules_irc ::
  "graph_inference \<Rightarrow> molecule \<times> molecule \<times> molecule \<times> molecule \<Rightarrow>
   bool \<times> (molecule \<times> molecule \<times> molecule \<times> molecule)" where
  "compare_molecules_irc infer mols = sweep infer tolerances mols"

section \<open>run\_ts\_searcher\_dft.py: the worker of the search\<close>







section \<open>dft\_validation.py: the validation of a batch\<close>

text \<open>
  What \<open>validate_individual_ts\<close> returns, and what a list of such results can hold: a reaction
  identifier, Python's \<open>False\<close>, or Python's \<open>None\<close>.
\<close>

datatype py_result = PyNone | PyFalse | RxnId string

text \<open>
  One reaction of the batch, with the outcomes of the calls the worker makes for it:
  \<open>os.listdir\<close> of the guess directory, whether \<open>shutil.copy\<close> of a geometry file raises, and
  \<open>determine_ts\<close>.
\<close>

record 'e validation_task =
  task_rxn_id :: string
  listdir :: "'e + string list"
  copy_raises :: "string \<Rightarrow> bool"
  determine_ts_result :: "'e + bool"

definition endswith :: "string \<Rightarrow> string \<Rightarrow> bool" where
  "endswith s suffix =
     (length suffix \<le> length s \<and> drop (length s - length suffix) s = suffix)"

text \<open>
  The loop over the directory (lines 47-53), inside the first \<open>try\<close>: an exception of a copy
  ends the loop and keeps the guess file found so far. \<open>ts_guess_file\<close> holds the name of
  the file; the directory in front of it is the same for every file.
\<close>

fun scan_files :: "(string \<Rightarrow> bool) \<Rightarrow> string list \<Rightarrow> string option \<Rightarrow> string option" where
  "scan_files raises [] ts_guess_file = ts_guess_file"
| "scan_files raises (file # rest) ts_guess_file =
     (if contains ''ts_guess'' file \<and> endswith file ''.xyz'' then
        scan_files raises rest (Some file)
      else if file = ''reactants_geometry.xyz'' then
        (if raises file then ts_guess_file else scan_files raises rest ts_guess_file)
      else if file = ''products_geometry.xyz'' then
        (if raises file then ts_guess_file else scan_files raises rest ts_guess_file)
      else scan_files raises rest ts_guess_file)"

text \<open>
  \<open>validate_individual_ts\<close> (lines 39-72): the identifier, or \<open>False\<close>. An exception of the
  listing or of \<open>determine_ts\<close> is caught; \<open>modify_ts_guess_list\<close>, a method of the optimizer
  that is called outside the \<open>try\<close> statements, is taken to return.
\<close>

definition validate_individual_ts :: "'e validation_task \<Rightarrow> py_result" where
  "validate_individual_ts task =
     (let ts_guess_file =
            (case listdir task of
               Inl e \<Rightarrow> None
             | Inr files \<Rightarrow> scan_files (copy_raises task) files None);
          ts_validated =
            (case ts_guess_file of
               None \<Rightarrow> False
             | Some _ \<Rightarrow> (case determine_ts_result task of Inl e \<Rightarrow> False | Inr v \<Rightarrow> v))
      in if ts_validated then RxnId (task_rxn_id task) else PyFalse)"

text \<open>
  \<open>validate_ts_guesses\<close> (lines 103-113): the results of the workers in the order of the
  batch, then \<open>[r for r in results if r is not None]\<close>.
\<close>

definition validate_ts_guesses :: "'e validation_task list \<Rightarrow> py_result list" where
  "validate_ts_guesses batch =
     (let results = map validate_individual_ts batch
      in filter (\<lambda>r. r \<noteq> PyNone) results)"

section \<open>Example inputs\<close>

text \<open>
  A reaction of three atoms on the x axis: the middle atom leaves atom 0 and binds to atom 2.
  The mode moves the middle atom along the axis.
\<close>

definition example_reactant :: molecule where
  "example_reactant =
     \<lparr>symbols = [''H'', ''H'', ''H''],
      coordinates = [(0, 0, 0), (1, 0, 0), (3, 0, 0)],
      graph_edges = [(0, 1)]\<rparr>"

definition example_product :: molecule where
  "example_product =
     \<lparr>symbols = [''H'', ''H'', ''H''],
      coordinates = [(0, 0, 0), (2, 0, 0), (3, 0, 0)],
      graph_edges = [(1, 2)]\<rparr>"

definition example_ts :: molecule where
  "example_ts =
     \<lparr>symbols = [''H'', ''H'', ''H''],
      coordinates = [(0, 0, 0), (3 / 2, 0, 0), (3, 0, 0)],
      graph_edges = []\<rparr>"

definition example_mode :: "coord list" where
  "example_mode = [(0, 0, 0), (1, 0, 0), (0, 0, 0)]"

text \<open>
  The library functions on the texts of the example files: \<open>float\<close> on the three numbers that
  occur, and the pattern of line 304 on the three rows of the mode (no other line of the
  examples matches it). Lines are written without their line ends.
\<close>

definition example_lib :: py_lib where
  "example_lib =
     \<lparr>float_of = (\<lambda>s. if s = ''-300.0000'' then Some (- 300)
                      else if s = ''0.00'' then Some 0
                      else if s = ''1.00'' then Some 1
                      else None),
      mode_row = (\<lambda>s. if s = ''   1   1     0.00   0.00   0.00''
                        then Some (''0.00'', ''0.00'', ''0.00'')
                      else if s = ''   2   1     1.00   0.00   0.00''
                        then Some (''1.00'', ''0.00'', ''0.00'')
                      else if s = ''   3   1     0.00   0.00   0.00''
                        then Some (''0.00'', ''0.00'', ''0.00'')
                      else None)\<rparr>"

definition g98_header :: "string list" where
  "g98_header =
     ['' Frequencies --  -300.0000'',
      '' Red. masses --     1.0079'',
      '' Frc consts  --     0.0000'',
      '' IR Inten    --     0.0000'',
      '' Raman Activ --     0.0000'',
      '' Depolar     --     0.0000'',
      '' Atom AN      X      Y      Z'']"

text \<open>A complete file, a file with one row of the mode only, and a file without the marker.\<close>

definition example_g98 :: "string list" where
  "example_g98 =
     [''                     1''] @ g98_header @
     [''   1   1     0.00   0.00   0.00'',
      ''   2   1     1.00   0.00   0.00'',
      ''   3   1     0.00   0.00   0.00'']"



text \<open>
  Graph inference for the example of the sweep: on the x axis, neighbouring atoms are bonded
  when their distance is at most \<open>1 + rel_tolerance\<close>.
\<close>

definition example_infer :: graph_inference where
  "example_infer rel_tolerance syms coords =
     (if \<bar>fst (coords ! 0) - fst (coords ! 1)\<bar> \<le> 1 + rel_tolerance then [(0, 1)] else []) @
     (if \<bar>fst (coords ! 1) - fst (coords ! 2)\<bar> \<le> 1 + rel_tolerance then [(1, 2)] else [])"

definition example_forward :: molecule where
  "example_forward =
     \<lparr>symbols = [''H'', ''H'', ''H''],
      coordinates = [(0, 0, 0), (128 / 100, 0, 0), (228 / 100, 0, 0)],
      graph_edges = []\<rparr>"

definition example_reverse :: molecule where
  "example_reverse =
     \<lparr>symbols = [''H'', ''H'', ''H''],
      coordinates = [(0, 0, 0), (1, 0, 0), (3, 0, 0)],
      graph_edges = []\<rparr>"


text \<open>
  Two reactions of a validation batch: the directory of the first holds no guess file, the
  second has one and is validated.
\<close>

definition task_without_guess :: "unit validation_task" where
  "task_without_guess =
     \<lparr>task_rxn_id = ''R1'',
      listdir = Inr [''reactants_geometry.xyz'', ''products_geometry.xyz''],
      copy_raises = (\<lambda>file. False),
      determine_ts_result = Inr True\<rparr>"

definition task_validated :: "unit validation_task" where
  "task_validated =
     \<lparr>task_rxn_id = ''R2'',
      listdir = Inr [''reactants_geometry.xyz'', ''ts_guess_0.xyz'', ''products_geometry.xyz''],
      copy_raises = (\<lambda>file. False),
      determine_ts_result = Inr True\<rparr>"




text \<open>
  A second reaction on the x axis: atoms 1 and 2 both bind to atom 0, and no bond breaks. In
  the mode of the example only atom 1 moves, so the distance of atoms 0 and 2 does not
  change.
\<close>

definition addition_reactant :: molecule where
  "addition_reactant =
     \<lparr>symbols = [''H'', ''H'', ''H''],
      coordinates = [(0, 0, 0), (2, 0, 0), (- 2, 0, 0)],
      graph_edges = []\<rparr>"

definition addition_product :: molecule where
  "addition_product =
     \<lparr>symbols = [''H'', ''H'', ''H''],
      coordinates = [(0, 0, 0), (1, 0, 0), (- 1, 0, 0)],
      graph_edges = [(0, 1), (0, 2)]\<rparr>"

definition addition_ts :: molecule where
  "addition_ts =
     \<lparr>symbols = [''H'', ''H'', ''H''],
      coordinates = [(0, 0, 0), (2, 0, 0), (- 2, 0, 0)],
      graph_edges = []\<rparr>"

text \<open>
  The same-sign rule in the specification's words: no two entries of non-zero sign
  disagree, that is, no entry is negative or no entry is positive.
\<close>

definition same_sign_rule :: "real list \<Rightarrow> bool" where
  "same_sign_rule mode_list =
     (list_all (\<lambda>x. 0 \<le> x) mode_list \<or> list_all (\<lambda>x. x \<le> 0) mode_list)"


text \<open>What \<open>extract_info_ts_file\<close> returns for this reaction at the displacement cut-off 0.\<close>

definition addition_info :: ts_info where
  "addition_info =
     \<lparr>freq = - 300,
      active_bonds_involved_in_mode = [((0, 1), 2), ((0, 2), 0)],
      extra_bonds_involved_in_mode = [],
      active_bonds_forming = [(0, 1), (0, 2)],
      active_bonds_breaking = [],
      reac_distances = [[0, 2, 2], [2, 0, 4], [2, 4, 0]],
      prod_distances = [[0, 1, 1], [1, 0, 2], [1, 2, 0]],
      ts_distances = [[0, 2, 2], [2, 0, 4], [2, 4, 0]]\<rparr>"

section \<open>Properties of the float arithmetic\<close>

lemma round_half_even_int: "round_half_even (of_int n) = n"
  by (simp add: round_half_even_def)

lemma floor_log2_binade:
  assumes "2 powr of_int e \<le> \<bar>x\<bar>" and "\<bar>x\<bar> < 2 powr (of_int e + 1)"
  shows "\<lfloor>log 2 \<bar>x\<bar>\<rfloor> = e"
proof -
  have pos: "0 < \<bar>x\<bar>" using assms(1) by (smt (verit) powr_gt_zero)
  have "of_int e \<le> log 2 \<bar>x\<bar>"
    using assms(1) pos by (simp add: le_log_iff)
  moreover have "log 2 \<bar>x\<bar> < of_int e + 1"
    using assms(2) pos by (simp add: log_less_iff)
  ultimately show ?thesis by linarith
qed

lemma fl_round_binade:
  assumes "2 powr of_int e \<le> \<bar>x\<bar>" and "\<bar>x\<bar> < 2 powr (of_int e + 1)"
  shows "fl_round x =
         2 powr (of_int e - 52) * of_int (round_half_even (x / 2 powr (of_int e - 52)))"
proof -
  have "x \<noteq> 0" using assms(1) by (smt (verit) powr_gt_zero)
  then show ?thesis
    by (simp add: fl_round_def Let_def floor_log2_binade [OF assms])
qed

text \<open>Rounding in the binade from 1 to 2, where the floats are the multiples of \<open>1 / 2 ^ 52\<close>.\<close>

lemma fl_round_unit_binade:
  assumes "1 \<le> x" and "x < 2"
  shows "fl_round x = of_int (round_half_even (x * 2 ^ 52)) / 2 ^ 52"
proof -
  have a: "2 powr of_int 0 \<le> \<bar>x\<bar>" "\<bar>x\<bar> < 2 powr (of_int 0 + 1)"
    using assms by simp_all
  have p: "(2::real) powr (- 52) = 1 / 2 ^ 52"
    by (simp add: powr_minus_divide powr_realpow [symmetric])
  show ?thesis
    using fl_round_binade [OF a] by (simp add: p)
qed

text \<open>A number with a significand of at most 53 bits is a float: rounding leaves it.\<close>

lemma fl_round_exact:
  assumes m: "\<bar>m\<bar> < 2 ^ 53"
  shows "fl_round (of_int m * 2 powr of_int e) = of_int m * 2 powr of_int e"
proof (cases "m = 0")
  case True
  then show ?thesis by (simp add: fl_round_def)
next
  case False
  define j where "j = \<lfloor>log 2 \<bar>real_of_int m\<bar>\<rfloor>"
  have m1: "1 \<le> \<bar>real_of_int m\<bar>" using False by linarith
  have j0: "0 \<le> j" unfolding j_def using m1 by simp
  have "real_of_int \<bar>m\<bar> < real_of_int (2 ^ 53)"
    using m by (simp only: of_int_less_iff)
  then have "\<bar>real_of_int m\<bar> < 2 ^ 53" by simp
  then have "log 2 \<bar>real_of_int m\<bar> < 53"
    using m1 by (simp add: log_less_iff powr_realpow [symmetric])
  then have j52: "j \<le> 52" unfolding j_def by linarith
  have x0: "of_int m * 2 powr of_int e \<noteq> (0::real)" using False by simp
  have ax: "\<bar>of_int m * 2 powr of_int e\<bar> = \<bar>real_of_int m\<bar> * 2 powr of_int e"
    by (simp add: abs_mult)
  have "log 2 (\<bar>real_of_int m\<bar> * 2 powr of_int e) = log 2 \<bar>real_of_int m\<bar> + of_int e"
    using m1 False by (simp add: log_mult)
  then have k: "\<lfloor>log 2 \<bar>of_int m * 2 powr of_int e\<bar>\<rfloor> = j + e"
    unfolding ax j_def by simp
  have q: "real_of_int m * 2 powr of_int e / 2 powr (of_int (j + e) - 52) =
           of_int (m * 2 ^ nat (52 - j))"
  proof -
    have "real_of_int m * 2 powr of_int e / 2 powr (of_int (j + e) - 52) =
          real_of_int m * 2 powr (of_int e - (of_int (j + e) - 52))"
      by (simp only: times_divide_eq_right [symmetric] powr_diff [symmetric])
    also have "real_of_int e - (of_int (j + e) - 52) = real (nat (52 - j))"
      using j52 by simp
    also have "real_of_int m * 2 powr real (nat (52 - j)) = of_int (m * 2 ^ nat (52 - j))"
      by (simp add: powr_realpow)
    finally show ?thesis .
  qed
  have "fl_round (of_int m * 2 powr of_int e) =
        2 powr (of_int (j + e) - 52) * of_int (m * 2 ^ nat (52 - j))"
    using x0 by (simp only: fl_round_def k Let_def q round_half_even_int if_False)
  also have "\<dots> = 2 powr (of_int (j + e) - 52) * (of_int m * 2 powr real (nat (52 - j)))"
    by (simp add: powr_realpow)
  also have "\<dots> = of_int m * (2 powr (of_int (j + e) - 52) * 2 powr real (nat (52 - j)))"
    by simp
  also have "2 powr (of_int (j + e) - 52) * 2 powr real (nat (52 - j)) = 2 powr of_int e"
    using j52 by (simp add: powr_add [symmetric])
  finally show ?thesis .
qed

text \<open>In particular the multiples of \<open>1 / 1024\<close> below \<open>2 ^ 43\<close> are floats.\<close>

lemma fl_round_grid:
  assumes "of_int \<lfloor>x * 1024\<rfloor> = x * 1024" and "\<bar>x\<bar> < 2 ^ 43"
  shows "fl_round x = x"
proof -
  define m where "m = \<lfloor>x * 1024\<rfloor>"
  have p: "(2::real) powr of_int (- 10) = 1 / 1024"
    by (simp add: powr_minus_divide powr_realpow [symmetric])
  from assms(1) have "x * 1024 = of_int m" unfolding m_def by (rule sym)
  then have "x = of_int m * (1 / 1024)" by linarith
  then have xm: "x = of_int m * 2 powr of_int (- 10)"
    by (simp only: p)
  have "real_of_int m = x * 1024"
    using assms(1) unfolding m_def .
  then have "\<bar>real_of_int m\<bar> = \<bar>x\<bar> * 1024"
    by (simp add: abs_mult)
  also have "\<dots> < 2 ^ 43 * 1024" using assms(2) by simp
  finally have "real_of_int \<bar>m\<bar> < real_of_int (2 ^ 53)" by simp
  then have "\<bar>m\<bar> < 2 ^ 53" by (simp only: of_int_less_iff)
  from fl_round_exact [OF this, of "- 10"] xm show ?thesis by simp
qed

lemmas float_ops = fadd_def fsub_def fmul_def fdiv_def fsqrt_def

text \<open>The default factor is a float, and so are its products used in the examples.\<close>

lemma fl_round_float_1_05: "fl_round float_1_05 = float_1_05"
  by (simp add: float_1_05_def fl_round_unit_binade round_half_even_def)

lemma fmul_one_float_1_05: "fmul 1 float_1_05 = float_1_05"
  by (simp add: fmul_def fl_round_float_1_05)

lemma fmul_three_halves_float_1_05:
  "fmul (3 / 2) float_1_05 = 7093169413108532 / 4503599627370496"
  by (simp add: fmul_def float_1_05_def fl_round_unit_binade round_half_even_def)

lemma fmul_five_quarters_float_1_05: "fmul (5 / 4) float_1_05 = 21 / 16"
  by (simp add: fmul_def float_1_05_def fl_round_unit_binade round_half_even_def)

section \<open>Properties of the checks\<close>

subsection \<open>The same-sign rule\<close>

lemma check_same_sign_loop_positive:
  "check_same_sign_loop 1 xs = (\<forall>x\<in>set xs. x > 0)"
  by (induction xs) (auto simp: Let_def)

lemma check_same_sign_loop_negative:
  "check_same_sign_loop (- 1) xs = (\<forall>x\<in>set xs. x \<le> 0)"
  by (induction xs) (auto simp: Let_def not_less)

text \<open>
  What the loop computes: every entry is positive, or no entry is. A zero counts as
  negative, and the result does not depend on the order of the list.
\<close>

lemma check_same_sign_all_or_none:
  "check_same_sign xs = ((\<forall>x\<in>set xs. x > 0) \<or> (\<forall>x\<in>set xs. x \<le> 0))"
  unfolding check_same_sign_def
  by (cases xs)
     (auto simp: Let_def check_same_sign_loop_positive check_same_sign_loop_negative not_less)

text \<open>
  C3: the same-sign rule passes a list iff no two entries of non-zero sign disagree, zero
  entries being neutral; in particular every list of positive and zero values passes. The
  function does not do so: on the list of a positive value followed by a zero it returns
  False, because the zero is given the sign -1.
\<close>

theorem check_same_sign_positive_then_zero:
  "check_same_sign [1, 0] = False"
  by (simp add: check_same_sign_def)

subsection \<open>Bond-length intermediacy\<close>

lemma at2_bond: "at2 m (fst b) (snd b) = Inr d \<longleftrightarrow> in_bounds m b \<and> d = entry m b"
  by (auto simp: at2_def in_bounds_def entry_def)

lemma bond_too_short_in_bounds:
  "in_bounds ts b \<Longrightarrow> in_bounds eq b \<Longrightarrow>
   bond_too_short ts eq factor b = Inr (entry ts b < fmul (entry eq b) factor)"
  by (simp add: bond_too_short_def at2_def in_bounds_def entry_def)

lemma intermediate_loop_in_bounds:
  "\<forall>b\<in>set bs. in_bounds ts b \<and> in_bounds eq b \<Longrightarrow>
   intermediate_loop ts eq factor bs =
     Inr (\<forall>b\<in>set bs. fmul (entry eq b) factor \<le> entry ts b)"
  by (induction bs) (auto simp: bond_too_short_in_bounds not_less)

text \<open>
  C5, as stated: \<open>check_if_bond_lengths_intermediate\<close> returns True iff every forming bond's
  TS distance is at least \<open>factor\<close> times its product distance (and likewise for the breaking
  bonds). It compares with the rounded product: for the TS distance 1.3125, the product
  distance 1.25 and the default factor, the float of 1.05, the exact product is above
  1.3125 and the float product is 1.3125, so the check returns True although the TS distance
  is below \<open>factor\<close> times the product distance.
\<close>

theorem check_if_bond_lengths_intermediate_rounds:
  "check_if_bond_lengths_intermediate [[0, 21 / 16], [21 / 16, 0]] [[0, 0], [0, 0]]
     [[0, 5 / 4], [5 / 4, 0]] [(0, 1)] [] float_1_05 = Inr True \<and>
   \<not> float_1_05 * (5 / 4) \<le> 21 / 16"
  by (simp add: check_if_bond_lengths_intermediate_def bond_too_short_def at2_def
        fmul_five_quarters_float_1_05)
     (simp add: float_1_05_def)

text \<open>
  C5, amended: when every forming bond indexes the TS and product matrices and every
  breaking bond the TS and reactant matrices, \<open>check_if_bond_lengths_intermediate\<close> returns
  True iff every forming bond's TS distance is at least the float product of its product
  distance and \<open>factor\<close> (the exact product rounded to the nearest float) and every breaking
  bond's TS distance is at least the float product of its reactant distance and \<open>factor\<close>;
  one violating bond of either kind makes it return False.
\<close>

theorem check_if_bond_lengths_intermediate_iff:
  assumes "\<forall>b\<in>set forming. in_bounds ts b \<and> in_bounds prd b"
      and "\<forall>b\<in>set breaking. in_bounds ts b \<and> in_bounds rct b"
  shows "check_if_bond_lengths_intermediate ts rct prd forming breaking factor =
         Inr ((\<forall>b\<in>set forming. fmul (entry prd b) factor \<le> entry ts b) \<and>
              (\<forall>b\<in>set breaking. fmul (entry rct b) factor \<le> entry ts b))"
  using assms
  by (simp add: check_if_bond_lengths_intermediate_def intermediate_loop_in_bounds)

text \<open>
  The scenario of the specification (TS distance 2.00, product distance 1.50, factor 1.05)
  passes, and the check fails once a breaking bond is shorter than the float product of its
  reactant distance and the factor.
\<close>

theorem check_if_bond_lengths_intermediate_iff_witness:
  "check_if_bond_lengths_intermediate [[0, 2], [2, 0]] [[0, 1], [1, 0]]
     [[0, 3 / 2], [3 / 2, 0]] [(0, 1)] [] float_1_05 = Inr True \<and>
   check_if_bond_lengths_intermediate [[0, 1], [1, 0]] [[0, 1], [1, 0]]
     [[0, 3 / 2], [3 / 2, 0]] [] [(1, 0)] float_1_05 = Inr False"
proof -
  have a: "\<forall>b\<in>set [(0::nat, 1::nat)]. in_bounds [[0, 2], [2, 0]] b \<and>
             in_bounds [[0, 3 / 2], [3 / 2, 0]] b"
    by (simp add: in_bounds_def)
  have b: "\<forall>b\<in>set ([] :: bond list). in_bounds [[0, 2], [2, 0]] b \<and>
             in_bounds [[0, 1], [1, 0]] b"
    by simp
  have c: "\<forall>b\<in>set ([] :: bond list). in_bounds [[0, 1], [1, 0]] b \<and>
             in_bounds [[0, 3 / 2], [3 / 2, 0]] b"
    by simp
  have d: "\<forall>b\<in>set [(1::nat, 0::nat)]. in_bounds [[0, 1], [1, 0]] b \<and>
             in_bounds [[0, 1], [1, 0]] b"
    by (simp add: in_bounds_def)
  show ?thesis
    using check_if_bond_lengths_intermediate_iff [OF a b, of float_1_05]
      check_if_bond_lengths_intermediate_iff [OF c d, of float_1_05]
    by (simp add: entry_def fmul_three_halves_float_1_05 fmul_one_float_1_05)
       (simp add: float_1_05_def)
qed

subsection \<open>Intermediacy and the unactivated bonds\<close>

lemma intermediate_loop_True_iff:
  "intermediate_loop ts eq factor bs = Inr True \<longleftrightarrow>
   (\<forall>b\<in>set bs. bond_too_short ts eq factor b = Inr False)"
  by (induction bs) (auto split: sum.splits)

lemma unactivated_loop_extends:
  "unactivated_loop ts eq factor bs acc = Inr res \<Longrightarrow> \<exists>new. res = acc @ new"
proof (induction bs arbitrary: acc res)
  case Nil
  then show ?case by simp
next
  case (Cons b bs)
  from Cons.prems obtain short where
    "unactivated_loop ts eq factor bs (if short then acc @ [b] else acc) = Inr res"
    by (auto split: sum.splits)
  from Cons.IH [OF this] obtain new where
    "res = (if short then acc @ [b] else acc) @ new" by blast
  then show ?case by (cases short) auto
qed

lemma unactivated_loop_unchanged_iff:
  "unactivated_loop ts eq factor bs acc = Inr acc \<longleftrightarrow>
   (\<forall>b\<in>set bs. bond_too_short ts eq factor b = Inr False)"
proof (induction bs arbitrary: acc)
  case Nil
  then show ?case by simp
next
  case (Cons b bs)
  show ?case
  proof (cases "bond_too_short ts eq factor b")
    case (Inl e)
    then show ?thesis by simp
  next
    case (Inr short)
    show ?thesis
    proof (cases short)
      case True
      have "unactivated_loop ts eq factor bs (acc @ [b]) \<noteq> Inr acc"
      proof
        assume "unactivated_loop ts eq factor bs (acc @ [b]) = Inr acc"
        then obtain new where "acc = (acc @ [b]) @ new"
          using unactivated_loop_extends by blast
        then show False by simp
      qed
      with Inr True show ?thesis by simp
    next
      case False
      with Inr Cons.IH show ?thesis by simp
    qed
  qed
qed

text \<open>
  C10: on the same distance matrices, bond sets and factor,
  \<open>check_if_bond_lengths_intermediate\<close> returns True iff the loops of
  \<open>determine_unactivated_bonds\<close> return the empty list.
\<close>

theorem intermediate_iff_no_unactivated_bonds:
  "check_if_bond_lengths_intermediate ts rct prd forming breaking factor = Inr True \<longleftrightarrow>
   unactivated_bonds ts rct prd forming breaking factor = Inr []"
proof -
  have a: "unactivated_bonds ts rct prd forming breaking factor = Inr [] \<longleftrightarrow>
        unactivated_loop ts prd factor forming [] = Inr [] \<and>
        unactivated_loop ts rct factor breaking [] = Inr []"
    unfolding unactivated_bonds_def
    by (auto split: sum.splits dest: unactivated_loop_extends)
  have b: "check_if_bond_lengths_intermediate ts rct prd forming breaking factor = Inr True \<longleftrightarrow>
        intermediate_loop ts prd factor forming = Inr True \<and>
        intermediate_loop ts rct factor breaking = Inr True"
    unfolding check_if_bond_lengths_intermediate_def
    by (auto split: sum.splits)
  show ?thesis
    unfolding a b by (simp add: intermediate_loop_True_iff unactivated_loop_unchanged_iff)
qed

text \<open>
  With no bond too short the list is empty, so the check returns True; with the breaking
  bond too short the check returns False, so the list is not empty.
\<close>

theorem intermediate_iff_no_unactivated_bonds_witness:
  "check_if_bond_lengths_intermediate [[0, 2], [2, 0]] [[0, 1], [1, 0]]
     [[0, 3 / 2], [3 / 2, 0]] [(0, 1)] [(1, 0)] float_1_05 = Inr True \<and>
   unactivated_bonds [[0, 2], [2, 0]] [[0, 2], [2, 0]]
     [[0, 3 / 2], [3 / 2, 0]] [(0, 1)] [(1, 0)] float_1_05 \<noteq> Inr []"
proof -
  have small: "(7093169413108532 / 4503599627370496 :: real) \<le> 2" "float_1_05 \<le> 2"
    by (simp_all add: float_1_05_def)
  have big: "2 < fmul 2 float_1_05"
  proof -
    have "2 powr of_int 1 \<le> \<bar>2 * float_1_05\<bar>" "\<bar>2 * float_1_05\<bar> < 2 powr (of_int 1 + 1)"
      by (simp_all add: float_1_05_def)
    from fl_round_binade [OF this]
    have "fmul 2 float_1_05 =
          2 powr (- 51) * of_int (round_half_even (2 * float_1_05 / 2 powr (- 51)))"
      by (simp add: fmul_def)
    also have "(2::real) powr (- 51) = 1 / 2 ^ 51"
      by (simp add: powr_minus_divide powr_realpow [symmetric])
    finally show ?thesis
      by (simp add: float_1_05_def round_half_even_def)
  qed
  have "unactivated_bonds [[0, 2], [2, 0]] [[0, 1], [1, 0]]
     [[0, 3 / 2], [3 / 2, 0]] [(0, 1)] [(1, 0)] float_1_05 = Inr []"
    using small
    by (simp add: unactivated_bonds_def bond_too_short_def at2_def
          fmul_three_halves_float_1_05 fmul_one_float_1_05 not_less)
  moreover have "check_if_bond_lengths_intermediate [[0, 2], [2, 0]] [[0, 2], [2, 0]]
     [[0, 3 / 2], [3 / 2, 0]] [(0, 1)] [(1, 0)] float_1_05 \<noteq> Inr True"
    using small big
    by (simp add: check_if_bond_lengths_intermediate_def bond_too_short_def at2_def
          fmul_three_halves_float_1_05 not_less)
  ultimately show ?thesis
    using intermediate_iff_no_unactivated_bonds
            [of "[[0, 2], [2, 0]]" "[[0, 1], [1, 0]]" "[[0, 3 / 2], [3 / 2, 0]]"
                "[(0, 1)]" "[(1, 0)]" float_1_05]
          intermediate_iff_no_unactivated_bonds
            [of "[[0, 2], [2, 0]]" "[[0, 2], [2, 0]]" "[[0, 3 / 2], [3 / 2, 0]]"
                "[(0, 1)]" "[(1, 0)]" float_1_05]
    by blast
qed

subsection \<open>Bond classification\<close>

text \<open>
  The dictionaries after the loop, for any start: a bond of the list is stored with its
  delta when it passes its threshold, and every other entry is as before. The loop returns
  only if every bond of the list indexes the delta matrix.
\<close>

lemma classify_loop_maps:
  "classify_loop delta c active bs act ext = Inr (act', ext') \<Longrightarrow>
   (\<forall>b\<in>set bs. in_bounds delta b) \<and>
   map_of act' b =
     (if b \<in> set bs \<and> b \<in> set active \<and> 2 * c \<le> \<bar>entry delta b\<bar>
      then Some (entry delta b) else map_of act b) \<and>
   map_of ext' b =
     (if b \<in> set bs \<and> b \<notin> set active \<and> c \<le> \<bar>entry delta b\<bar>
      then Some (entry delta b) else map_of ext b)"
proof (induction bs arbitrary: act ext)
  case Nil
  then show ?case by simp
next
  case (Cons x bs)
  from Cons.prems obtain d where d: "at2 delta (fst x) (snd x) = Inr d"
    by (auto split: sum.splits)
  then have xb: "in_bounds delta x" and dx: "d = entry delta x"
    by (simp_all add: at2_bond)
  show ?case
  proof (cases "x \<in> set active")
    case True
    show ?thesis
    proof (cases "\<bar>d\<bar> < 2 * c")
      case small: True
      with Cons.prems d True
      have "classify_loop delta c active bs act ext = Inr (act', ext')" by simp
      from Cons.IH [OF this] xb dx small True show ?thesis by auto
    next
      case big: False
      with Cons.prems d True
      have "classify_loop delta c active bs (AList.update x d act) ext = Inr (act', ext')"
        by simp
      from Cons.IH [OF this] xb dx big True show ?thesis
        by (auto simp: update_conv')
    qed
  next
    case False
    show ?thesis
    proof (cases "\<bar>d\<bar> < c")
      case small: True
      with Cons.prems d False
      have "classify_loop delta c active bs act ext = Inr (act', ext')" by simp
      from Cons.IH [OF this] xb dx small False show ?thesis by auto
    next
      case big: False
      with Cons.prems d False
      have "classify_loop delta c active bs act (AList.update x d ext) = Inr (act', ext')"
        by simp
      from Cons.IH [OF this] xb dx big False show ?thesis
        by (auto simp: update_conv')
    qed
  qed
qed

text \<open>The loop returns when every bond of the list indexes the delta matrix.\<close>

lemma classify_loop_returns:
  "\<forall>b\<in>set bs. in_bounds delta b \<Longrightarrow>
   \<exists>act' ext'. classify_loop delta c active bs act ext = Inr (act', ext')"
proof (induction bs arbitrary: act ext)
  case Nil
  then show ?case by simp
next
  case (Cons x bs)
  then have "at2 delta (fst x) (snd x) = Inr (entry delta x)"
    by (simp add: at2_bond)
  with Cons show ?case by simp
qed

text \<open>
  C6: when the classification returns, every bond \<open>b\<close> of the reactant or product edges
  indexes the delta matrix; if \<open>b\<close> is a forming or breaking bond, the active dictionary holds
  it iff the absolute delta is at least \<open>2 * cut_off\<close>, and the extra dictionary never; for
  any other bond the extra dictionary holds it iff the absolute delta is at least \<open>cut_off\<close>,
  and the active dictionary never; the value stored is the signed delta entry. The forming
  bonds are the product edges that are no reactant edges, the breaking bonds the reverse.
\<close>

theorem bond_classification_correct:
  assumes "bond_classification delta cut_off reactant_edges product_edges =
           Inr (act, ext, forming, breaking)"
      and "b \<in> set reactant_edges \<union> set product_edges"
  shows "in_bounds delta b \<and>
         set forming = set product_edges - set reactant_edges \<and>
         set breaking = set reactant_edges - set product_edges \<and>
         (if b \<in> set forming \<union> set breaking
          then map_of act b =
                 (if 2 * cut_off \<le> \<bar>entry delta b\<bar> then Some (entry delta b) else None) \<and>
               map_of ext b = None
          else map_of ext b =
                 (if cut_off \<le> \<bar>entry delta b\<bar> then Some (entry delta b) else None) \<and>
               map_of act b = None)"
proof -
  let ?all = "set_union (py_set product_edges) (py_set reactant_edges)"
  let ?f = "set_difference (py_set product_edges) (py_set reactant_edges)"
  let ?b = "set_difference (py_set reactant_edges) (py_set product_edges)"
  from assms(1)
  have loop: "classify_loop delta cut_off (set_union ?f ?b) ?all [] [] = Inr (act, ext)"
    and f: "forming = ?f" and br: "breaking = ?b"
    by (auto simp: bond_classification_def Let_def split: sum.splits)
  have sf: "set forming = set product_edges - set reactant_edges"
    and sb: "set breaking = set reactant_edges - set product_edges"
    by (auto simp: f br set_difference_def py_set_def)
  have act: "set (set_union ?f ?b) = set forming \<union> set breaking"
    by (simp add: set_union_def f br)
  have all: "b \<in> set ?all"
    using assms(2) by (auto simp: set_union_def py_set_def)
  from classify_loop_maps [OF loop, of b] all act sf sb show ?thesis
    by auto
qed

text \<open>
  Reactant edges (0,1), (1,2) and (2,3), product edges (1,2), (2,3) and (0,3), cut-off 0.5.
  The breaking bond (0,1) has delta 3 and is stored as active; the forming bond (0,3) has
  delta -0.8, below twice the cut-off, and is stored nowhere; the common bond (1,2) has
  delta -0.6 and is stored as extra; the common bond (2,3) has delta 0.2 and is stored
  nowhere.
\<close>

lemma bond_classification_example:
  "bond_classification
     [[0, 3, 0, - 8 / 10], [3, 0, - 6 / 10, 0], [0, - 6 / 10, 0, 2 / 10], [- 8 / 10, 0, 2 / 10, 0]]
     (1 / 2) [(0, 1), (1, 2), (2, 3)] [(1, 2), (2, 3), (0, 3)] =
   Inr ([((0, 1), 3)], [((1, 2), - 6 / 10)], [(0, 3)], [(0, 1)])"
  by (simp add: bond_classification_def set_union_def set_difference_def py_set_def at2_def)

theorem bond_classification_correct_witness:
  "bond_classification
     [[0, 3, 0, - 8 / 10], [3, 0, - 6 / 10, 0], [0, - 6 / 10, 0, 2 / 10], [- 8 / 10, 0, 2 / 10, 0]]
     (1 / 2) [(0, 1), (1, 2), (2, 3)] [(1, 2), (2, 3), (0, 3)] =
   Inr ([((0, 1), 3)], [((1, 2), - 6 / 10)], [(0, 3)], [(0, 1)]) \<and>
   map_of [((0::nat, 1::nat), 3::real)] (0, 1) = Some 3 \<and>
   map_of [((1::nat, 2::nat), - 6 / 10 :: real)] (0, 1) = None \<and>
   map_of [((0::nat, 1::nat), 3::real)] (0, 3) = None \<and>
   map_of [((1::nat, 2::nat), - 6 / 10 :: real)] (1, 2) = Some (- 6 / 10) \<and>
   map_of [((1::nat, 2::nat), - 6 / 10 :: real)] (2, 3) = None"
proof -
  note ex = bond_classification_example
  have m: "(0, 1) \<in> set [(0::nat, 1::nat), (1, 2), (2, 3)] \<union> set [(1, 2), (2, 3), (0, 3)]"
    "(0, 3) \<in> set [(0::nat, 1::nat), (1, 2), (2, 3)] \<union> set [(1, 2), (2, 3), (0, 3)]"
    "(1, 2) \<in> set [(0::nat, 1::nat), (1, 2), (2, 3)] \<union> set [(1, 2), (2, 3), (0, 3)]"
    "(2, 3) \<in> set [(0::nat, 1::nat), (1, 2), (2, 3)] \<union> set [(1, 2), (2, 3), (0, 3)]"
    by simp_all
  show ?thesis
    using ex bond_classification_correct [OF ex m(1)] bond_classification_correct [OF ex m(2)]
      bond_classification_correct [OF ex m(3)] bond_classification_correct [OF ex m(4)]
    by (simp add: entry_def)
qed

section \<open>Properties of the tolerance sweep\<close>

text \<open>Building the graphs again replaces the graphs built before.\<close>

lemma make_graph_again:
  "make_graph infer (make_graph infer m t') t = make_graph infer m t"
  by (simp add: make_graph_def)

lemma update_molecular_graphs_again:
  "update_molecular_graphs infer t (update_molecular_graphs infer t' mols) =
   update_molecular_graphs infer t mols"
  by (cases mols) (simp add: update_molecular_graphs_def make_graph_again)

lemma sweep_find:
  "sweep infer ts mols =
     (case find (\<lambda>t. orientation_matches (update_molecular_graphs infer t mols)) ts of
        Some t \<Rightarrow> (True, update_molecular_graphs infer t mols)
      | None \<Rightarrow> (False, if ts = [] then mols else update_molecular_graphs infer (last ts) mols))"
proof (induction ts arbitrary: mols)
  case Nil
  then show ?case by simp
next
  case (Cons t ts)
  show ?case
  proof (cases "orientation_matches (update_molecular_graphs infer t mols)")
    case True
    then show ?thesis by (simp add: Let_def)
  next
    case False
    then show ?thesis
      by (simp add: Let_def Cons.IH update_molecular_graphs_again split: option.splits)
  qed
qed

lemma orientation_matches_update:
  "orientation_matches (update_molecular_graphs infer t (f, r, a, p)) =
     ((set (infer t (symbols f) (coordinates f)) = set (infer t (symbols a) (coordinates a)) \<and>
       set (infer t (symbols r) (coordinates r)) = set (infer t (symbols p) (coordinates p))) \<or>
      (set (infer t (symbols f) (coordinates f)) = set (infer t (symbols p) (coordinates p)) \<and>
       set (infer t (symbols r) (coordinates r)) = set (infer t (symbols a) (coordinates a))))"
  by (simp add: orientation_matches_def update_molecular_graphs_def make_graph_def)

text \<open>
  C7: for the forward, reverse, reactant and product molecules \<open>f\<close>, \<open>r\<close>, \<open>a\<close> and \<open>p\<close>,
  \<open>compare_molecules_irc\<close> goes through the tolerances 0.30, 0.25, 0.20, 0.15, 0.10 in this
  order. It returns True at the first tolerance at which the edge sets inferred at that
  tolerance are equal in one of the two orientations (forward with reactant and reverse with
  product, or forward with product and reverse with reactant), leaving the four graphs built
  at that tolerance; without such a tolerance it returns False, with the graphs built at
  0.10.
\<close>

theorem compare_molecules_irc_first_match:
  "compare_molecules_irc infer (f, r, a, p) =
     (case find
        (\<lambda>t. (set (infer t (symbols f) (coordinates f)) = set (infer t (symbols a) (coordinates a)) \<and>
              set (infer t (symbols r) (coordinates r)) = set (infer t (symbols p) (coordinates p))) \<or>
             (set (infer t (symbols f) (coordinates f)) = set (infer t (symbols p) (coordinates p)) \<and>
              set (infer t (symbols r) (coordinates r)) = set (infer t (symbols a) (coordinates a))))
        [30 / 100, 25 / 100, 20 / 100, 15 / 100, 10 / 100] of
        Some t \<Rightarrow> (True, update_molecular_graphs infer t (f, r, a, p))
      | None \<Rightarrow> (False, update_molecular_graphs infer (10 / 100) (f, r, a, p)))"
  unfolding compare_molecules_irc_def sweep_find orientation_matches_update tolerances_def
  by simp

text \<open>
  In the example the forward end point has the bond (0,1) at tolerance 0.30 only. At 0.30 no
  orientation matches; at 0.25 the forward graph equals the product graph and the reverse
  graph the reactant graph, and the sweep stops there. With the forward end point in place
  of the product nothing matches at any tolerance.
\<close>

theorem compare_molecules_irc_first_match_witness:
  "compare_molecules_irc example_infer
     (example_forward, example_reverse, example_reactant, example_product) =
   (True, example_forward\<lparr>graph_edges := [(1, 2)]\<rparr>, example_reverse\<lparr>graph_edges := [(0, 1)]\<rparr>,
    example_reactant\<lparr>graph_edges := [(0, 1)]\<rparr>, example_product\<lparr>graph_edges := [(1, 2)]\<rparr>) \<and>
   fst (compare_molecules_irc example_infer
     (example_forward, example_reverse, example_reactant, example_reactant)) = False"
  using compare_molecules_irc_first_match
          [of example_infer example_forward example_reverse example_reactant example_product]
        compare_molecules_irc_first_match
          [of example_infer example_forward example_reverse example_reactant example_reactant]
  by (simp add: example_infer_def example_forward_def example_reverse_def
        example_reactant_def example_product_def update_molecular_graphs_def make_graph_def)

section \<open>Properties of the search worker\<close>












section \<open>Properties of the parser\<close>







text \<open>The parser on the example files.\<close>

lemma frequency_of_header:
  "frequency_of example_lib '' Frequencies --  -300.0000'' = Inr (- 300)"
  by (simp add: frequency_of_def example_lib_def is_space_def)

lemma read_example:
  "read_first_normal_mode example_lib example_g98 False = Inr (example_mode, - 300)"
  by (simp add: read_first_normal_mode_def example_g98_def g98_header_def frequency_of_header
        example_mode_def)
     (simp add: example_lib_def)






section \<open>Properties of the extraction and the verdict\<close>

subsection \<open>The examples, step by step\<close>

lemma fl_round_zero: "fl_round 0 = 0"
  by (simp add: fl_round_def)

text \<open>On the x axis the norm is exact when the coordinate and its square are floats.\<close>

lemma norm3_x_axis:
  "fl_round (x * x) = x * x \<Longrightarrow> fl_round \<bar>x\<bar> = \<bar>x\<bar> \<Longrightarrow> norm3 (x, 0, 0) = \<bar>x\<bar>"
  by (simp add: norm3_def float_ops fl_round_zero)

lemmas float_eval = float_ops fl_round_zero fl_round_grid norm3_x_axis

lemma shrink_loop_first:
  "0 < n \<Longrightarrow>
   np_max (map2 (\<lambda>c d. norm3 (vsub c d)) coords disp_coords) = Inr largest \<Longrightarrow>
   largest < max_atom_disp \<Longrightarrow>
   shrink_loop n coords mode disp_factor max_atom_disp disp_coords = Inr disp_coords"
  by (cases n) simp_all

lemma displaced_forward:
  "displaced_species_along_mode example_ts example_mode 1 float_99_9 =
   Inr (example_ts\<lparr>coordinates := [(0, 0, 0), (5 / 2, 0, 0), (3, 0, 0)], graph_edges := []\<rparr>)"
proof -
  have "shrink_loop 20 [(0, 0, 0), (3 / 2, 0, 0), (3, 0, 0)] example_mode 1 float_99_9
          [(0, 0, 0), (5 / 2, 0, 0), (3, 0, 0)] = Inr [(0, 0, 0), (5 / 2, 0, 0), (3, 0, 0)]"
    by (rule shrink_loop_first [where largest = 1])
       (simp_all add: vsub_def float_eval example_mode_def float_99_9_def)
  then show ?thesis
    by (simp add: displaced_species_along_mode_def example_ts_def example_mode_def
          mode_rows_for_def vadd_def smul_def float_eval)
qed

lemma displaced_backward_reactant:
  "displaced_species_along_mode example_reactant example_mode (- 1) float_99_9 =
   Inr (example_reactant\<lparr>coordinates := [(0, 0, 0), (0, 0, 0), (3, 0, 0)], graph_edges := []\<rparr>)"
proof -
  have "shrink_loop 20 [(0, 0, 0), (1, 0, 0), (3, 0, 0)] example_mode (- 1) float_99_9
          [(0, 0, 0), (0, 0, 0), (3, 0, 0)] = Inr [(0, 0, 0), (0, 0, 0), (3, 0, 0)]"
    by (rule shrink_loop_first [where largest = 1])
       (simp_all add: vsub_def float_eval example_mode_def float_99_9_def)
  then show ?thesis
    by (simp add: displaced_species_along_mode_def example_reactant_def example_mode_def
          mode_rows_for_def vadd_def smul_def float_eval)
qed

lemma displaced_backward_ts:
  "displaced_species_along_mode example_ts example_mode (- 1) float_99_9 =
   Inr (example_ts\<lparr>coordinates := [(0, 0, 0), (1 / 2, 0, 0), (3, 0, 0)], graph_edges := []\<rparr>)"
proof -
  have "shrink_loop 20 [(0, 0, 0), (3 / 2, 0, 0), (3, 0, 0)] example_mode (- 1) float_99_9
          [(0, 0, 0), (1 / 2, 0, 0), (3, 0, 0)] = Inr [(0, 0, 0), (1 / 2, 0, 0), (3, 0, 0)]"
    by (rule shrink_loop_first [where largest = 1])
       (simp_all add: vsub_def float_eval example_mode_def float_99_9_def)
  then show ?thesis
    by (simp add: displaced_species_along_mode_def example_ts_def example_mode_def
          mode_rows_for_def vadd_def smul_def float_eval)
qed

lemma delta_mode_example:
  "delta_mode_of example_ts example_reactant example_mode =
   Inr [[0, 5 / 2, 0], [5 / 2, 0, - 5 / 2], [0, - 5 / 2, 0]]"
  by (simp add: delta_mode_of_def displaced_forward displaced_backward_reactant
        distance_matrix_def matrix_minus_def vsub_def float_eval)

lemma delta_mode_specified_example:
  "delta_mode_as_specified example_ts example_mode =
   Inr [[0, 2, 0], [2, 0, - 2], [0, - 2, 0]]"
  by (simp add: delta_mode_as_specified_def delta_mode_of_def displaced_forward
        displaced_backward_ts distance_matrix_def matrix_minus_def vsub_def float_eval)

text \<open>
  C4: the delta mode is the difference of the distance matrices of two geometries that are
  both displaced from the candidate TS geometry, at +1 and at -1. The function displaces the
  reactant geometry for the backward one (line 230): in the example, where atom 1 is at 1.5
  in the TS and at 1 in the reactant, the delta of the bond (0,1) is 2.5 - 0 = 2.5, while
  the two displacements of the TS give 2.5 - 0.5 = 2.
\<close>

theorem delta_mode_displaces_reactant:
  "delta_mode_of example_ts example_reactant example_mode =
     Inr [[0, 5 / 2, 0], [5 / 2, 0, - 5 / 2], [0, - 5 / 2, 0]] \<and>
   delta_mode_as_specified example_ts example_mode =
     Inr [[0, 2, 0], [2, 0, - 2], [0, - 2, 0]] \<and>
   delta_mode_of example_ts example_reactant example_mode \<noteq>
     delta_mode_as_specified example_ts example_mode"
  by (simp add: delta_mode_example delta_mode_specified_example)

text \<open>The second reaction: the displaced geometries, the delta mode and the extraction.\<close>

lemma displaced_forward_addition:
  "displaced_species_along_mode addition_ts example_mode 1 float_99_9 =
   Inr (addition_ts\<lparr>coordinates := [(0, 0, 0), (3, 0, 0), (- 2, 0, 0)], graph_edges := []\<rparr>)"
proof -
  have "shrink_loop 20 [(0, 0, 0), (2, 0, 0), (- 2, 0, 0)] example_mode 1 float_99_9
          [(0, 0, 0), (3, 0, 0), (- 2, 0, 0)] = Inr [(0, 0, 0), (3, 0, 0), (- 2, 0, 0)]"
    by (rule shrink_loop_first [where largest = 1])
       (simp_all add: vsub_def float_eval example_mode_def float_99_9_def)
  then show ?thesis
    by (simp add: displaced_species_along_mode_def addition_ts_def example_mode_def
          mode_rows_for_def vadd_def smul_def float_eval)
qed

lemma displaced_backward_addition:
  "displaced_species_along_mode addition_reactant example_mode (- 1) float_99_9 =
   Inr (addition_reactant\<lparr>coordinates := [(0, 0, 0), (1, 0, 0), (- 2, 0, 0)],
          graph_edges := []\<rparr>)"
proof -
  have "shrink_loop 20 [(0, 0, 0), (2, 0, 0), (- 2, 0, 0)] example_mode (- 1) float_99_9
          [(0, 0, 0), (1, 0, 0), (- 2, 0, 0)] = Inr [(0, 0, 0), (1, 0, 0), (- 2, 0, 0)]"
    by (rule shrink_loop_first [where largest = 1])
       (simp_all add: vsub_def float_eval example_mode_def float_99_9_def)
  then show ?thesis
    by (simp add: displaced_species_along_mode_def addition_reactant_def example_mode_def
          mode_rows_for_def vadd_def smul_def float_eval)
qed

lemma delta_mode_addition:
  "delta_mode_of addition_ts addition_reactant example_mode =
   Inr [[0, 2, 0], [2, 0, 2], [0, 2, 0]]"
  by (simp add: delta_mode_of_def displaced_forward_addition displaced_backward_addition
        distance_matrix_def matrix_minus_def vsub_def float_eval)

lemma extract_addition:
  "extract_info_ts_file example_lib addition_reactant addition_product addition_ts
     example_g98 0 = Inr addition_info"
proof -
  have c: "bond_classification [[0, 2, 0], [2, 0, 2], [0, 2, 0]] 0 [] [(0, 1), (0, 2)] =
           Inr ([((0, 1), 2), ((0, 2), 0)], [], [(0, 1), (0, 2)], [])"
    by (simp add: bond_classification_def set_union_def set_difference_def py_set_def at2_def)
  have e: "graph_edges addition_reactant = []" "graph_edges addition_product = [(0, 1), (0, 2)]"
    by (simp_all add: addition_reactant_def addition_product_def)
  have d: "distance_matrix (coordinates addition_reactant) (coordinates addition_reactant) =
             [[0, 2, 2], [2, 0, 4], [2, 4, 0]]"
    "distance_matrix (coordinates addition_product) (coordinates addition_product) =
             [[0, 1, 1], [1, 0, 2], [1, 2, 0]]"
    "distance_matrix (coordinates addition_ts) (coordinates addition_ts) =
             [[0, 2, 2], [2, 0, 4], [2, 4, 0]]"
    by (simp_all add: distance_matrix_def addition_reactant_def addition_product_def
          addition_ts_def vsub_def float_eval)
  show ?thesis
    by (simp add: extract_info_ts_file_def read_example delta_mode_addition e c [simplified]
          d [simplified] addition_info_def)
qed

lemma check_addition:
  "check_if_bond_lengths_intermediate (ts_distances addition_info)
     (reac_distances addition_info) (prod_distances addition_info)
     (active_bonds_forming addition_info) (active_bonds_breaking addition_info) float_1_05 =
   Inr True"
proof -
  have "\<not> 2 < float_1_05" by (simp add: float_1_05_def)
  then show ?thesis
    by (simp add: check_if_bond_lengths_intermediate_def bond_too_short_def at2_def
          addition_info_def fmul_one_float_1_05)
qed

subsection \<open>The bond-length check returns on well-formed molecules\<close>

lemma in_bounds_distance_matrix:
  "in_bounds (distance_matrix xs xs) b \<longleftrightarrow> fst b < length xs \<and> snd b < length xs"
  by (auto simp: in_bounds_def distance_matrix_def)

lemma extract_info_fields:
  assumes "extract_info_ts_file lib reactant product ts_mol g98_lines cut_off = Inr info"
  shows "ts_distances info = distance_matrix (coordinates ts_mol) (coordinates ts_mol) \<and>
         reac_distances info = distance_matrix (coordinates reactant) (coordinates reactant) \<and>
         prod_distances info = distance_matrix (coordinates product) (coordinates product) \<and>
         set (active_bonds_forming info) \<subseteq> set (graph_edges product) \<and>
         set (active_bonds_breaking info) \<subseteq> set (graph_edges reactant)"
  using assms
  by (auto simp: extract_info_ts_file_def bond_classification_def Let_def
        set_difference_def py_set_def split: sum.splits prod.splits)

text \<open>
  When the three molecules have the same number of atoms and the edges of the two graphs
  are pairs of atoms, the bond-length check on the extracted information does not raise.
\<close>

lemma check_returns_after_extraction:
  assumes ex: "extract_info_ts_file lib reactant product ts_mol g98_lines cut_off = Inr info"
    and n: "length (coordinates reactant) = n" "length (coordinates product) = n"
      "length (coordinates ts_mol) = n"
    and er: "\<forall>b\<in>set (graph_edges reactant). fst b < n \<and> snd b < n"
    and ep: "\<forall>b\<in>set (graph_edges product). fst b < n \<and> snd b < n"
  shows "\<exists>v. check_if_bond_lengths_intermediate (ts_distances info) (reac_distances info)
           (prod_distances info) (active_bonds_forming info) (active_bonds_breaking info)
           factor = Inr v"
proof -
  note f = extract_info_fields [OF ex]
  have a: "\<forall>b\<in>set (active_bonds_forming info).
             in_bounds (ts_distances info) b \<and> in_bounds (prod_distances info) b"
    using f n ep by (auto simp: in_bounds_distance_matrix)
  have b: "\<forall>b\<in>set (active_bonds_breaking info).
             in_bounds (ts_distances info) b \<and> in_bounds (reac_distances info) b"
    using f n er by (auto simp: in_bounds_distance_matrix)
  show ?thesis
    by (auto simp: check_if_bond_lengths_intermediate_def
          intermediate_loop_in_bounds [OF a] intermediate_loop_in_bounds [OF b])
qed

subsection \<open>The verdict\<close>

text \<open>
  The verdict as the function computes it: when the extraction returns \<open>info\<close>, the
  bond-length check returns \<open>intermediate\<close> and, with \<open>final\<close> set, the move of the guess file
  returns \<open>fs'\<close>, the result is the conjunction of lines 64 to 66 with the sign test
  \<open>check_same_sign\<close>, and the guess file is moved only for a True verdict with \<open>final\<close> set.
\<close>

lemma validate_ts_guess_as_coded:
  assumes "extract_info_ts_file lib reactant product ts_mol g98_lines disp_cut_off = Inr info"
      and "check_if_bond_lengths_intermediate (ts_distances info) (reac_distances info)
             (prod_distances info) (active_bonds_forming info) (active_bonds_breaking info)
             factor = Inr intermediate"
      and "final \<longrightarrow> move fs = Inr fs'"
  shows "validate_ts_guess lib move reactant product ts_mol g98_lines
           factor disp_cut_off freq_cut_off final fs =
           (let verdict =
                  (extra_bonds_involved_in_mode info = [] \<and>
                   active_bonds_involved_in_mode info \<noteq> [] \<and>
                   check_same_sign
                     (values_on (active_bonds_involved_in_mode info)
                        (active_bonds_forming info)) \<and>
                   check_same_sign
                     (values_on (active_bonds_involved_in_mode info)
                        (active_bonds_breaking info)) \<and>
                   intermediate \<and>
                   freq info < - freq_cut_off)
            in Inr (verdict, if verdict \<and> final then fs' else fs))"
proof (cases "accepted info intermediate freq_cut_off")
  case True
  show ?thesis
  proof (cases final)
    case f: True
    with assms(3) have "move fs = Inr fs'" by blast
    with True f assms(1,2) show ?thesis
      by (auto simp: validate_ts_guess_def accepted_def)
  next
    case False
    with True assms(1,2) show ?thesis
      by (auto simp: validate_ts_guess_def accepted_def)
  qed
next
  case False
  with assms(1,2) show ?thesis
    by (auto simp: validate_ts_guess_def accepted_def)
qed

text \<open>
  C1: whenever the extraction succeeds, \<open>validate_ts_guess\<close> returns True iff the extra
  dictionary is empty, the active dictionary is not empty, the displacements of the forming
  bonds and those of the breaking bonds each pass the same-sign rule, the bond-length check
  passes and the frequency is below \<open>- freq_cut_off\<close>. The function does not do so. For the
  second reaction at the displacement cut-off 0 the extraction succeeds, the extra
  dictionary is empty, the active dictionary holds the forming bonds (0,1) with displacement
  2 and (0,2) with displacement 0, both lists pass the same-sign rule (a zero is neutral),
  the bond-length check returns True and the frequency -300 is below -50; yet the function
  returns False, because \<open>check_same_sign\<close> gives the zero the sign -1.
\<close>

theorem validate_ts_guess_rejects_zero_displacement:
  "extract_info_ts_file example_lib addition_reactant addition_product addition_ts
     example_g98 0 = Inr addition_info \<and>
   extra_bonds_involved_in_mode addition_info = [] \<and>
   active_bonds_involved_in_mode addition_info \<noteq> [] \<and>
   values_on (active_bonds_involved_in_mode addition_info)
     (active_bonds_forming addition_info) = [2, 0] \<and>
   same_sign_rule [2, 0] \<and>
   values_on (active_bonds_involved_in_mode addition_info)
     (active_bonds_breaking addition_info) = [] \<and>
   same_sign_rule [] \<and>
   check_if_bond_lengths_intermediate (ts_distances addition_info)
     (reac_distances addition_info) (prod_distances addition_info)
     (active_bonds_forming addition_info) (active_bonds_breaking addition_info) float_1_05 =
     Inr True \<and>
   freq addition_info < - 50 \<and>
   validate_ts_guess example_lib (\<lambda>fs. Inr (''R1_final_ts_guess.xyz'' # fs))
     addition_reactant addition_product addition_ts example_g98 float_1_05 0 50 False [] =
     Inr (False, [])"
proof -
  have v: "values_on (active_bonds_involved_in_mode addition_info)
             (active_bonds_forming addition_info) = [2, 0]"
    "values_on (active_bonds_involved_in_mode addition_info)
             (active_bonds_breaking addition_info) = []"
    by (simp_all add: values_on_def addition_info_def)
  have r: "same_sign_rule [2, 0]" "same_sign_rule []"
    by (simp_all add: same_sign_rule_def)
  have i: "extra_bonds_involved_in_mode addition_info = []"
    "active_bonds_involved_in_mode addition_info \<noteq> []" "freq addition_info < - 50"
    by (simp_all add: addition_info_def)
  have s: "\<not> check_same_sign [2, 0]"
    by (simp add: check_same_sign_def)
  have "validate_ts_guess example_lib (\<lambda>fs. Inr (''R1_final_ts_guess.xyz'' # fs))
     addition_reactant addition_product addition_ts example_g98 float_1_05 0 50 False [] =
     Inr (False, [])"
    by (simp add: validate_ts_guess_def extract_addition check_addition accepted_def v s)
  with extract_addition check_addition v r i show ?thesis by simp
qed

section \<open>Properties of the validation of a batch\<close>

text \<open>
  The worker never returns None, so the filter of \<open>validate_ts_guesses\<close> removes nothing: the
  returned list has one element for every reaction of the batch.
\<close>

lemma validate_individual_ts_not_None: "validate_individual_ts task \<noteq> PyNone"
  by (simp add: validate_individual_ts_def Let_def)

lemma validate_ts_guesses_all_results:
  "validate_ts_guesses batch = map validate_individual_ts batch"
  by (simp add: validate_ts_guesses_def Let_def validate_individual_ts_not_None)

text \<open>
  C2: the list that \<open>validate_ts_guesses\<close> returns holds exactly the identifiers of the
  validated reactions, and a reaction without a guess file contributes no element. The
  function does not do so: the worker returns Python's False for such a reaction, the
  filter removes only None, and the returned list holds False in its place.
\<close>

theorem validate_ts_guesses_keeps_False:
  "validate_ts_guesses [task_without_guess] = [PyFalse] \<and>
   validate_ts_guesses [task_without_guess, task_validated] = [PyFalse, RxnId ''R2'']"
  by (simp add: validate_ts_guesses_def validate_individual_ts_def task_without_guess_def
        task_validated_def endswith_def)

end
